theory Spec2Isabelle
  imports Main
begin

section \<open>OCPP 1.6 enumerations used by the charge point\<close>

text \<open>
  The enumerations of \<^verbatim>\<open>ocpp::v16\<close> that \<^verbatim>\<open>charge_point.cpp\<close> switches on. A C++
  enumerator \<^verbatim>\<open>E::V\<close> that shares its name with one of another enumeration is written
  \<open>E_V\<close>.
\<close>

datatype RegistrationStatus =
  RegistrationStatus_Accepted | RegistrationStatus_Pending | RegistrationStatus_Rejected

datatype ChargePointConnectionState = Disconnected | Connected | Booted | Pending | Rejected

datatype AvailabilityType = Inoperative | Operative

datatype AvailabilityStatus =
  AvailabilityStatus_Accepted | AvailabilityStatus_Rejected | AvailabilityStatus_Scheduled

datatype AuthorizationStatus =
  AuthorizationStatus_Accepted | Blocked | Expired | Invalid | ConcurrentTx

datatype RemoteStartStopStatus = RemoteStartStopStatus_Accepted | RemoteStartStopStatus_Rejected

datatype UpdateType = Differential | Full

datatype UpdateStatus =
  UpdateStatus_Accepted | UpdateStatus_Failed | UpdateStatus_NotSupported | VersionMismatch

datatype ChargePointStatus =
  Available | Preparing | Charging | SuspendedEVSE | SuspendedEV | Finishing | Reserved
  | Unavailable | Faulted

datatype ChargePointErrorCode = NoError | OtherError

datatype ChargingProfilePurposeType = ChargePointMaxProfile | TxDefaultProfile | TxProfile

datatype SupportedFeatureProfiles =
  Core | FirmwareManagement | LocalAuthListManagement | Reservation | SmartCharging
  | RemoteTrigger | Security | PnC

datatype MessageTypeId = CALL | CALLRESULT | CALLERROR

text \<open>
  The message types named in \<^verbatim>\<open>charge_point.cpp\<close>: the requests the charge point
  sends, the requests and the responses it dispatches on in \<^verbatim>\<open>handle_message\<close>.
  InternalError is the type of a received message that is none of them.
\<close>

datatype MessageType =
  Authorize | AuthorizeResponse | BootNotification | BootNotificationResponse
  | CancelReservation | CertificateSigned | ChangeAvailability | ChangeConfiguration
  | ClearCache | ClearChargingProfile | DataTransfer | DataTransferResponse
  | DeleteCertificate | DiagnosticsStatusNotification | ExtendedTriggerMessage
  | FirmwareStatusNotification | GetCompositeSchedule | GetConfiguration | GetDiagnostics
  | GetInstalledCertificateIds | GetLocalListVersion | GetLog | Heartbeat
  | InstallCertificate | LogStatusNotification | MeterValues | RemoteStartTransaction
  | RemoteStopTransaction | ReserveNow | Reset | SecurityEventNotification | SendLocalList
  | SetChargingProfile | SignCertificate | SignedFirmwareStatusNotification
  | SignedUpdateFirmware | StartTransaction | StartTransactionResponse | StatusNotification
  | StopTransaction | StopTransactionResponse | TriggerMessage | UnlockConnector
  | UpdateFirmware | InternalError

section \<open>Messages\<close>

text \<open>
  Message ids are opaque tokens compared for equality only; \<^verbatim>\<open>createMessageId\<close> of the
  message queue hands out fresh ones, here from a counter. Points in time
  (\<^verbatim>\<open>date::utc_clock\<close>, \<^verbatim>\<open>ocpp::DateTime\<close>) are integers counting seconds; the
  current time is an argument of every operation that reads the clock. Id tags
  (\<^verbatim>\<open>CiString<20>\<close>) are strings.
\<close>

type_synonym MessageId = nat
type_synonym DateTime = int

record IdTagInfo =
  status :: AuthorizationStatus
  expiryDate :: "DateTime option"
  parentIdTag :: "string option"

record ChargingProfile =
  chargingProfileId :: int
  stackLevel :: int
  chargingProfilePurpose :: ChargingProfilePurposeType

text \<open>
  Outbound requests. The two whose fields the modelled code fills in carry them; every
  other request is identified by its action, which is all \<^verbatim>\<open>allowed_to_send_message\<close>
  reads (\<^verbatim>\<open>message.at(CALL_ACTION)\<close>).
\<close>

datatype Request =
  AuthorizeRequest string
  | StatusNotificationRequest int ChargePointErrorCode ChargePointStatus
  | OtherRequest MessageType

fun get_type :: "Request \<Rightarrow> MessageType" where
  "get_type (AuthorizeRequest idTag) = Authorize"
| "get_type (StatusNotificationRequest connectorId errorCode st) = StatusNotification"
| "get_type (OtherRequest t) = t"

record 'a Call =
  msg :: 'a
  uniqueId :: MessageId

type_synonym 'a CallResult = "'a Call"

text \<open>
  The inbound payloads of the handlers modelled below, and their typed responses. The
  fields are named as in the OCPP messages.
\<close>

record LocalAuthorizationList =
  idTag :: string
  idTagInfo :: "IdTagInfo option"

datatype BootNotificationResponse =
  BootNotificationResponse_msg (bn_status: RegistrationStatus) (bn_interval: int)

datatype ChangeAvailabilityRequest =
  ChangeAvailabilityRequest (ca_connectorId: int) (ca_type: AvailabilityType)

datatype RemoteStartTransactionRequest =
  RemoteStartTransactionRequest (rs_idTag: string) (rs_connectorId: "int option")
    (rs_chargingProfile: "ChargingProfile option")

datatype StopTransactionResponse =
  StopTransactionResponse_msg (st_idTagInfo: "IdTagInfo option")

datatype SendLocalListRequest =
  SendLocalListRequest (sl_listVersion: int)
    (sl_localAuthorizationList: "LocalAuthorizationList list option") (sl_updateType: UpdateType)

datatype AuthorizeResponse_msg = AuthorizeResponse_msg (au_idTagInfo: IdTagInfo)

datatype Response =
  ChangeAvailabilityResponse AvailabilityStatus
  | RemoteStartTransactionResponse RemoteStartStopStatus
  | SendLocalListResponse UpdateStatus
  | GetLocalListVersionResponse int

datatype Frame =
  CallResultFrame "Response CallResult"
  | CallErrorFrame MessageId string

text \<open>
  A received frame as \<^verbatim>\<open>MessageQueue::receive\<close> returns it. The \<^verbatim>\<open>json\<close> document is
  what the handlers convert to a typed Call or CallResult; a document that does not
  convert to the type asked for makes the conversion throw.
\<close>

datatype json =
  json_BootNotificationResponse "BootNotificationResponse CallResult"
  | json_ChangeAvailability "ChangeAvailabilityRequest Call"
  | json_RemoteStartTransaction "RemoteStartTransactionRequest Call"
  | json_StopTransactionResponse "StopTransactionResponse CallResult"
  | json_SendLocalList "SendLocalListRequest Call"
  | json_GetLocalListVersion "unit Call"
  | json_AuthorizeResponse "AuthorizeResponse_msg CallResult"
  | json_other

record EnhancedMessage =
  em_message :: json
  em_uniqueId :: MessageId
  messageType :: MessageType
  messageTypeId :: MessageTypeId
  offline :: bool

section \<open>Collaborators of the charge point\<close>

record Configuration =
  NumberOfConnectors :: int
  HeartbeatInterval :: int
  SupportedMessageTypesReceiving :: "MessageType set"
  SupportedFeatureProfilesSet :: "SupportedFeatureProfiles set"
  LocalAuthListEnabled :: bool
  LocalPreAuthorize :: bool
  LocalAuthorizeOffline :: bool
  AuthorizationCacheEnabled :: bool
  AllowOfflineTxForUnknownId :: "bool option"
  AuthorizeRemoteTxRequests :: bool

text \<open>
  Modelled from the spec: the durable store (\<^verbatim>\<open>DatabaseHandler\<close>) is outside the
  verified sources. The spec lists what it holds: connector availability by connector id,
  the authorization cache (id tag to IdTagInfo), the local list (version and entries).
\<close>

record DatabaseHandler =
  connector_availability :: "int \<Rightarrow> AvailabilityType"
  authorization_cache :: "string \<rightharpoonup> IdTagInfo"
  local_authorization_list :: "string \<rightharpoonup> IdTagInfo"
  local_list_version :: int

text \<open>
  Modelled from the spec: the transaction manager (\<^verbatim>\<open>TransactionHandler\<close>) is outside
  the verified sources. It tracks the active transaction of each connector, and the
  stopped transactions awaiting confirmation, addressed by the message id of their
  StopTransaction request.
\<close>

record Transaction =
  tx_connector :: int
  tx_id_tag :: string

record TransactionHandler =
  active_transactions :: "int \<rightharpoonup> Transaction"
  stopped_transactions :: "MessageId \<rightharpoonup> Transaction"

text \<open>
  Modelled from the spec: the connector state machines (\<^verbatim>\<open>ChargePointStates\<close>) are outside
  the verified sources. \<^verbatim>\<open>get_state\<close> reads the state of a connector; the events
  submitted are recorded in order, their transitions are the state machine's own.
\<close>

datatype Event = Event_BecomeAvailable | Event_ChangeAvailabilityToUnavailable

record ChargePointStates =
  get_state :: "int \<Rightarrow> ChargePointStatus"
  submitted_events :: "(int \<times> Event) list"

text \<open>
  Modelled from the spec: the smart-charging handler is outside the verified sources.
  Its profile validation is a function of the profile and the connector (the limits it
  checks against are configuration values); the TxProfiles added are recorded.
\<close>

record SmartChargingHandler =
  validate_profile :: "ChargingProfile \<Rightarrow> int \<Rightarrow> bool"
  tx_profiles :: "(ChargingProfile \<times> int) list"

text \<open>
  Modelled from the spec: the message queue and the WebSocket are outside the verified
  sources. \<^verbatim>\<open>push\<close> and \<^verbatim>\<open>push_async\<close> enqueue a Call (what was enqueued is recorded
  in order), \<^verbatim>\<open>websocket->send\<close> hands a frame to the transport (recorded in order).
\<close>

record MessageQueue =
  pushed :: "Request Call list"
  message_id_counter :: nat

record Websocket =
  is_connected :: bool
  sent :: "Frame list"

text \<open>
  The operator-supplied callbacks are \<^verbatim>\<open>std::function\<close> members: each is registered
  or empty. An invocation is recorded with its arguments.
\<close>

datatype Invocation =
  enable_evse int
  | disable_evse int
  | provide_token string "int list" bool

datatype error = bad_function_call | json_exception

record ChargePoint =
  initialized :: bool
  registration_status :: RegistrationStatus
  connection_state :: ChargePointConnectionState
  boot_time :: DateTime
  configuration :: Configuration
  database_handler :: DatabaseHandler
  transaction_handler :: TransactionHandler
  change_availability_queue :: "int \<rightharpoonup> AvailabilityType"
  cp_status :: ChargePointStates
  smart_charging_handler :: SmartChargingHandler
  message_queue :: MessageQueue
  websocket :: Websocket
  enable_evse_callback :: bool
  disable_evse_callback :: bool
  provide_token_callback :: bool
  switch_security_profile_callback :: bool
  central_system_fallback_ca :: bool
  invocations :: "Invocation list"

section \<open>Outbound gating and the send paths\<close>

definition createMessageId :: "ChargePoint \<Rightarrow> MessageId \<times> ChargePoint" where
  "createMessageId s =
     (message_id_counter (message_queue s),
      s\<lparr>message_queue := (message_queue s)
           \<lparr>message_id_counter := Suc (message_id_counter (message_queue s))\<rparr>\<rparr>)"

definition push :: "Request Call \<Rightarrow> ChargePoint \<Rightarrow> ChargePoint" where
  "push call s = s\<lparr>message_queue := (message_queue s)\<lparr>pushed := pushed (message_queue s) @ [call]\<rparr>\<rparr>"

definition websocket_send :: "Frame \<Rightarrow> ChargePoint \<Rightarrow> ChargePoint" where
  "websocket_send frame s = s\<lparr>websocket := (websocket s)\<lparr>sent := sent (websocket s) @ [frame]\<rparr>\<rparr>"

definition allowed_to_send_message :: "DateTime \<Rightarrow> Request Call \<Rightarrow> ChargePoint \<Rightarrow> bool" where
  "allowed_to_send_message now message s =
     (let message_type = get_type (msg message) in
      if \<not> initialized s then
        (if message_type = BootNotification \<or> message_type = StopTransaction then True
         else False)
      else if registration_status s = RegistrationStatus_Rejected then
        (let retry_time = boot_time s + HeartbeatInterval (configuration s) in
         if now < retry_time then False else True)
      else if registration_status s = RegistrationStatus_Pending then
        (if message_type = BootNotification \<or> message_type = StopTransaction then True
         else False)
      else True)"

definition send_Call :: "DateTime \<Rightarrow> Request Call \<Rightarrow> ChargePoint \<Rightarrow> bool \<times> ChargePoint" where
  "send_Call now call s =
     (if allowed_to_send_message now call s then (True, push call s) else (False, s))"

definition send_async :: "Request Call \<Rightarrow> ChargePoint \<Rightarrow> ChargePoint" where
  "send_async call s = push call s"

definition send_CallResult :: "Response CallResult \<Rightarrow> ChargePoint \<Rightarrow> ChargePoint" where
  "send_CallResult call_result s = websocket_send (CallResultFrame call_result) s"

definition send_CallError :: "MessageId \<Rightarrow> string \<Rightarrow> ChargePoint \<Rightarrow> ChargePoint" where
  "send_CallError uid errorCode s = websocket_send (CallErrorFrame uid errorCode) s"

definition status_notification ::
  "DateTime \<Rightarrow> int \<Rightarrow> ChargePointErrorCode \<Rightarrow> ChargePointStatus \<Rightarrow> ChargePoint \<Rightarrow> ChargePoint" where
  "status_notification now connector errorCode st s =
     (let request = StatusNotificationRequest connector errorCode st;
          (mid, s1) = createMessageId s;
          call = \<lparr>msg = request, uniqueId = mid\<rparr>
      in snd (send_Call now call s1))"

section \<open>Operations of the collaborators\<close>

text \<open>
  Modelled from the spec: the operations of the durable store that the charge point calls.
  A local-list entry that carries no IdTagInfo removes the id tag from the list.
\<close>

definition get_connector_availability :: "DatabaseHandler \<Rightarrow> int \<Rightarrow> AvailabilityType" where
  "get_connector_availability db c = connector_availability db c"

fun insert_or_update_connector_availability ::
  "int list \<Rightarrow> AvailabilityType \<Rightarrow> DatabaseHandler \<Rightarrow> DatabaseHandler" where
  "insert_or_update_connector_availability [] availability db = db"
| "insert_or_update_connector_availability (c # cs) availability db =
     insert_or_update_connector_availability cs availability
       (db\<lparr>connector_availability := (connector_availability db)(c := availability)\<rparr>)"

definition get_authorization_cache_entry :: "DatabaseHandler \<Rightarrow> string \<Rightarrow> IdTagInfo option" where
  "get_authorization_cache_entry db tag = authorization_cache db tag"

definition insert_or_update_authorization_cache_entry ::
  "string \<Rightarrow> IdTagInfo \<Rightarrow> DatabaseHandler \<Rightarrow> DatabaseHandler" where
  "insert_or_update_authorization_cache_entry tag info db =
     db\<lparr>authorization_cache := (authorization_cache db)(tag \<mapsto> info)\<rparr>"

definition get_local_authorization_list_entry :: "DatabaseHandler \<Rightarrow> string \<Rightarrow> IdTagInfo option" where
  "get_local_authorization_list_entry db tag = local_authorization_list db tag"

definition clear_local_authorization_list :: "DatabaseHandler \<Rightarrow> DatabaseHandler" where
  "clear_local_authorization_list db = db\<lparr>local_authorization_list := Map.empty\<rparr>"

fun insert_or_update_local_authorization_list ::
  "LocalAuthorizationList list \<Rightarrow> DatabaseHandler \<Rightarrow> DatabaseHandler" where
  "insert_or_update_local_authorization_list [] db = db"
| "insert_or_update_local_authorization_list (entry # entries) db =
     insert_or_update_local_authorization_list entries
       (db\<lparr>local_authorization_list :=
             (local_authorization_list db)(idTag entry := idTagInfo entry)\<rparr>)"

definition get_local_list_version :: "DatabaseHandler \<Rightarrow> int" where
  "get_local_list_version db = local_list_version db"

definition insert_or_update_local_list_version :: "int \<Rightarrow> DatabaseHandler \<Rightarrow> DatabaseHandler" where
  "insert_or_update_local_list_version version db = db\<lparr>local_list_version := version\<rparr>"

text \<open>Modelled from the spec: the lookups of the transaction manager.\<close>

definition get_transaction :: "TransactionHandler \<Rightarrow> int \<Rightarrow> Transaction option" where
  "get_transaction th c = active_transactions th c"

definition transaction_active :: "TransactionHandler \<Rightarrow> int \<Rightarrow> bool" where
  "transaction_active th c = (get_transaction th c \<noteq> None)"

definition get_authorized_id_tag :: "TransactionHandler \<Rightarrow> MessageId \<Rightarrow> string option" where
  "get_authorized_id_tag th stop_transaction_message_id =
     map_option tx_id_tag (stopped_transactions th stop_transaction_message_id)"

definition erase_stopped_transaction :: "MessageId \<Rightarrow> TransactionHandler \<Rightarrow> TransactionHandler" where
  "erase_stopped_transaction stop_transaction_message_id th =
     th\<lparr>stopped_transactions := (stopped_transactions th)(stop_transaction_message_id := None)\<rparr>"

text \<open>
  Modelled from the spec: \<^verbatim>\<open>ChargePointStates::run\<close> puts every connector into its
  initial state, Available unless the persisted availability is Inoperative.
\<close>

definition run :: "(int \<Rightarrow> AvailabilityType) \<Rightarrow> ChargePointStates \<Rightarrow> ChargePointStates" where
  "run availability st =
     st\<lparr>get_state := (\<lambda>c. if availability c = Inoperative then Unavailable else Available)\<rparr>"

definition submit_event :: "int \<Rightarrow> Event \<Rightarrow> ChargePoint \<Rightarrow> ChargePoint" where
  "submit_event c event s =
     s\<lparr>cp_status := (cp_status s)\<lparr>submitted_events := submitted_events (cp_status s) @ [(c, event)]\<rparr>\<rparr>"

definition invoke :: "Invocation \<Rightarrow> ChargePoint \<Rightarrow> ChargePoint" where
  "invoke i s = s\<lparr>invocations := invocations s @ [i]\<rparr>"

text \<open>
  A call either returns or throws; what was done before the throw stays done, so the
  exception carries the state it left.
\<close>

datatype 'a outcome = Returned 'a | Threw error ChargePoint

section \<open>Connection and registration\<close>

text \<open>
  \<^verbatim>\<open>connected_callback\<close>: in the Booted state one StatusNotification per connector,
  0 included, each through the gated \<^verbatim>\<open>send\<close>.
\<close>

fun connected_callback_notify :: "DateTime \<Rightarrow> int list \<Rightarrow> ChargePoint \<Rightarrow> ChargePoint" where
  "connected_callback_notify now [] s = s"
| "connected_callback_notify now (c # cs) s =
     connected_callback_notify now cs
       (status_notification now c NoError (get_state (cp_status s) c) s)"

definition connected_callback :: "DateTime \<Rightarrow> ChargePoint \<Rightarrow> ChargePoint" where
  "connected_callback now s =
     (let s1 = s\<lparr>switch_security_profile_callback := False, central_system_fallback_ca := False\<rparr>
      in case connection_state s1 of
           Disconnected \<Rightarrow> s1\<lparr>connection_state := Connected\<rparr>
         | Booted \<Rightarrow>
             connected_callback_notify now [0..NumberOfConnectors (configuration s1)] s1
         | _ \<Rightarrow> s1)"

text \<open>
  \<^verbatim>\<open>handleBootNotificationResponse\<close>. The timers it arms (heartbeat, boot retry, clock
  aligned sampling) belong to the io service and change no field read below.
\<close>

definition handleBootNotificationResponse ::
  "DateTime \<Rightarrow> BootNotificationResponse CallResult \<Rightarrow> ChargePoint \<Rightarrow> ChargePoint" where
  "handleBootNotificationResponse now call_result s =
     (let s1 = s\<lparr>registration_status := bn_status (msg call_result),
                 initialized := True, boot_time := now\<rparr>;
          s2 = (if bn_interval (msg call_result) > 0
                then s1\<lparr>configuration :=
                         (configuration s1)\<lparr>HeartbeatInterval := bn_interval (msg call_result)\<rparr>\<rparr>
                else s1)
      in case bn_status (msg call_result) of
           RegistrationStatus_Accepted \<Rightarrow>
             (let connector_availability0 =
                    (connector_availability (database_handler s2))(0 := Operative)
              in s2\<lparr>connection_state := Booted,
                    cp_status := run connector_availability0 (cp_status s2)\<rparr>)
         | RegistrationStatus_Pending \<Rightarrow> s2\<lparr>connection_state := Pending\<rparr>
         | _ \<Rightarrow> s2\<lparr>connection_state := Rejected\<rparr>)"

section \<open>Inbound handlers\<close>

text \<open>
  The availability change of one connector, as \<^verbatim>\<open>handleChangeAvailabilityRequest\<close> and
  \<^verbatim>\<open>handleStopTransactionResponse\<close> both perform it: the enable or disable callback if
  registered, then the event for the connector's state machine.
\<close>

definition change_connector :: "AvailabilityType \<Rightarrow> int \<Rightarrow> ChargePoint \<Rightarrow> ChargePoint" where
  "change_connector availability c s =
     (if availability = Operative then
        submit_event c Event_BecomeAvailable
          (if enable_evse_callback s then invoke (enable_evse c) s else s)
      else
        submit_event c Event_ChangeAvailabilityToUnavailable
          (if disable_evse_callback s then invoke (disable_evse c) s else s))"

text \<open>
  The loop of \<^verbatim>\<open>handleChangeAvailabilityRequest\<close> for connector 0, over the connectors
  1 to NumberOfConnectors: a connector with an active transaction gets the requested
  type queued, the others are collected.
\<close>

fun handleChangeAvailabilityRequest_loop ::
  "AvailabilityType \<Rightarrow> int list \<Rightarrow> bool \<times> int list \<times> ChargePoint \<Rightarrow> bool \<times> int list \<times> ChargePoint" where
  "handleChangeAvailabilityRequest_loop ty [] acc = acc"
| "handleChangeAvailabilityRequest_loop ty (c # cs) (transaction_running, connectors, s) =
     (if transaction_active (transaction_handler s) c then
        handleChangeAvailabilityRequest_loop ty cs
          (True, connectors, s\<lparr>change_availability_queue := (change_availability_queue s)(c \<mapsto> ty)\<rparr>)
      else
        handleChangeAvailabilityRequest_loop ty cs (transaction_running, connectors @ [c], s))"

fun handleChangeAvailabilityRequest_apply ::
  "AvailabilityType \<Rightarrow> int list \<Rightarrow> ChargePoint \<Rightarrow> ChargePoint" where
  "handleChangeAvailabilityRequest_apply ty [] s = s"
| "handleChangeAvailabilityRequest_apply ty (c # cs) s =
     handleChangeAvailabilityRequest_apply ty cs (change_connector ty c s)"

definition handleChangeAvailabilityRequest ::
  "ChangeAvailabilityRequest Call \<Rightarrow> ChargePoint \<Rightarrow> ChargePoint" where
  "handleChangeAvailabilityRequest call s =
     (let connectorId = ca_connectorId (msg call);
          ty = ca_type (msg call);
          (response, s') =
            (if connectorId \<le> NumberOfConnectors (configuration s) \<and> connectorId \<ge> 0 then
               (let (transaction_running, connectors, s1) =
                      (if connectorId = 0 then
                         handleChangeAvailabilityRequest_loop ty
                           [1..NumberOfConnectors (configuration s)] (False, [], s)
                       else if transaction_active (transaction_handler s) connectorId then
                         (True, [], s)
                       else (False, [connectorId], s))
                in if transaction_running then (AvailabilityStatus_Scheduled, s1)
                   else
                     (AvailabilityStatus_Accepted,
                      handleChangeAvailabilityRequest_apply ty connectors
                        (s1\<lparr>database_handler :=
                              insert_or_update_connector_availability connectors ty
                                (database_handler s1)\<rparr>)))
             else (AvailabilityStatus_Rejected, s))
      in send_CallResult \<lparr>msg = ChangeAvailabilityResponse response, uniqueId = uniqueId call\<rparr> s')"

text \<open>
  \<^verbatim>\<open>handleStopTransactionResponse\<close>. The connector is the constant 1. Reading the queue
  with \<^verbatim>\<open>operator[]\<close> and erasing the key afterwards leaves the key absent whether or
  not it was there.
\<close>

definition handleStopTransactionResponse ::
  "StopTransactionResponse CallResult \<Rightarrow> ChargePoint \<Rightarrow> ChargePoint" where
  "handleStopTransactionResponse call_result s =
     (let c = 1;
          s1 = (case st_idTagInfo (msg call_result) of
                  Some info \<Rightarrow>
                    (case get_authorized_id_tag (transaction_handler s) (uniqueId call_result) of
                       Some tag \<Rightarrow>
                         s\<lparr>database_handler :=
                             insert_or_update_authorization_cache_entry tag info (database_handler s)\<rparr>
                     | None \<Rightarrow> s)
                | None \<Rightarrow> s);
          queued = change_availability_queue s1 c;
          s2 = s1\<lparr>change_availability_queue := (change_availability_queue s1)(c := None)\<rparr>;
          s3 = (case queued of
                  Some availability \<Rightarrow>
                    change_connector availability c
                      (s2\<lparr>database_handler :=
                            insert_or_update_connector_availability [c] availability
                              (database_handler s2)\<rparr>)
                | None \<Rightarrow> s2)
      in s3\<lparr>transaction_handler :=
              erase_stopped_transaction (uniqueId call_result) (transaction_handler s3)\<rparr>)"

text \<open>\<^verbatim>\<open>handleSendLocalListRequest\<close>.\<close>

definition handleSendLocalListRequest :: "SendLocalListRequest Call \<Rightarrow> ChargePoint \<Rightarrow> ChargePoint" where
  "handleSendLocalListRequest call s =
     (let db = database_handler s;
          listVersion = sl_listVersion (msg call);
          (response, db') =
            (if \<not> LocalAuthListEnabled (configuration s) then (UpdateStatus_NotSupported, db)
             else if sl_updateType (msg call) = Full then
               (case sl_localAuthorizationList (msg call) of
                  Some local_auth_list \<Rightarrow>
                    (UpdateStatus_Accepted,
                     insert_or_update_local_authorization_list local_auth_list
                       (insert_or_update_local_list_version listVersion
                          (clear_local_authorization_list db)))
                | None \<Rightarrow>
                    (UpdateStatus_Accepted,
                     clear_local_authorization_list
                       (insert_or_update_local_list_version listVersion db)))
             else if sl_updateType (msg call) = Differential then
               (case sl_localAuthorizationList (msg call) of
                  Some local_auth_list \<Rightarrow>
                    (if get_local_list_version db < listVersion then
                       (UpdateStatus_Accepted,
                        insert_or_update_local_authorization_list local_auth_list
                          (insert_or_update_local_list_version listVersion db))
                     else (VersionMismatch, db))
                | None \<Rightarrow> (UpdateStatus_Failed, db))
             else (UpdateStatus_Failed, db))
      in send_CallResult \<lparr>msg = SendLocalListResponse response, uniqueId = uniqueId call\<rparr>
           (s\<lparr>database_handler := db'\<rparr>))"

text \<open>\<^verbatim>\<open>handleGetLocalListVersionRequest\<close>.\<close>

definition handleGetLocalListVersionRequest :: "unit Call \<Rightarrow> ChargePoint \<Rightarrow> ChargePoint" where
  "handleGetLocalListVersionRequest call s =
     (let listVersion =
            (if LocalAuthListManagement \<notin> SupportedFeatureProfilesSet (configuration s) then - 1
             else get_local_list_version (database_handler s))
      in send_CallResult \<lparr>msg = GetLocalListVersionResponse listVersion, uniqueId = uniqueId call\<rparr> s)"

text \<open>
  \<^verbatim>\<open>handleRemoteStartTransactionRequest\<close>. The provide-token callback is called without
  a check that it is registered; calling an empty \<^verbatim>\<open>std::function\<close> throws, after the
  response has gone out.
\<close>

definition add_tx_profile :: "ChargingProfile \<Rightarrow> int \<Rightarrow> ChargePoint \<Rightarrow> ChargePoint" where
  "add_tx_profile profile c s =
     s\<lparr>smart_charging_handler :=
         (smart_charging_handler s)\<lparr>tx_profiles := tx_profiles (smart_charging_handler s) @ [(profile, c)]\<rparr>\<rparr>"

definition handleRemoteStartTransactionRequest_accept ::
  "RemoteStartTransactionRequest Call \<Rightarrow> ChargePoint \<Rightarrow> ChargePoint outcome" where
  "handleRemoteStartTransactionRequest_accept call s =
     (let referenced_connectors =
            (case rs_connectorId (msg call) of
               None \<Rightarrow> [1..NumberOfConnectors (configuration s)]
             | Some connectorId \<Rightarrow> [connectorId]);
          s1 = send_CallResult
                 \<lparr>msg = RemoteStartTransactionResponse RemoteStartStopStatus_Accepted,
                  uniqueId = uniqueId call\<rparr> s
      in if \<not> provide_token_callback s1 then Threw bad_function_call s1
         else if AuthorizeRemoteTxRequests (configuration s1) then
           Returned (invoke (provide_token (rs_idTag (msg call)) referenced_connectors False) s1)
         else
           Returned (invoke (provide_token (rs_idTag (msg call)) referenced_connectors True) s1))"

definition handleRemoteStartTransactionRequest ::
  "RemoteStartTransactionRequest Call \<Rightarrow> ChargePoint \<Rightarrow> ChargePoint outcome" where
  "handleRemoteStartTransactionRequest call s =
     (let rejected =
            Returned (send_CallResult
              \<lparr>msg = RemoteStartTransactionResponse RemoteStartStopStatus_Rejected,
               uniqueId = uniqueId call\<rparr> s);
          connector_rejected =
            (case rs_connectorId (msg call) of
               Some connectorId \<Rightarrow>
                 (if connectorId = 0 then True
                  else if get_connector_availability (database_handler s) connectorId = Inoperative
                  then True
                  else if get_transaction (transaction_handler s) connectorId \<noteq> None \<or>
                          get_state (cp_status s) connectorId = Finishing
                  then True
                  else False)
             | None \<Rightarrow> False)
      in if connector_rejected then rejected
         else
           (case rs_chargingProfile (msg call) of
              Some profile \<Rightarrow>
                (case rs_connectorId (msg call) of
                   Some connectorId \<Rightarrow>
                     (if chargingProfilePurpose profile = TxProfile \<and>
                         validate_profile (smart_charging_handler s) profile connectorId
                      then handleRemoteStartTransactionRequest_accept call
                             (add_tx_profile profile connectorId s)
                      else rejected)
                 | None \<Rightarrow> rejected)
            | None \<Rightarrow> handleRemoteStartTransactionRequest_accept call s))"

section \<open>Dispatch of received messages\<close>

text \<open>
  \<^verbatim>\<open>handle_message\<close> switches on the message type. The handlers that are not modelled
  here are the argument \<open>other\<close>; AuthorizeResponse and DataTransferResponse are left to
  the waiting future, and a type without a case does nothing.
\<close>

definition handle_message ::
  "(MessageType \<Rightarrow> json \<Rightarrow> ChargePoint \<Rightarrow> ChargePoint outcome) \<Rightarrow>
   json \<Rightarrow> MessageType \<Rightarrow> ChargePoint \<Rightarrow> ChargePoint outcome" where
  "handle_message other json_message message_type s =
     (if message_type = AuthorizeResponse \<or> message_type = DataTransferResponse then Returned s
      else if message_type = ChangeAvailability then
        (case json_message of
           json_ChangeAvailability call \<Rightarrow> Returned (handleChangeAvailabilityRequest call s)
         | _ \<Rightarrow> Threw json_exception s)
      else if message_type = RemoteStartTransaction then
        (case json_message of
           json_RemoteStartTransaction call \<Rightarrow> handleRemoteStartTransactionRequest call s
         | _ \<Rightarrow> Threw json_exception s)
      else if message_type = StopTransactionResponse then
        (case json_message of
           json_StopTransactionResponse call_result \<Rightarrow>
             Returned (handleStopTransactionResponse call_result s)
         | _ \<Rightarrow> Threw json_exception s)
      else if message_type = SendLocalList then
        (case json_message of
           json_SendLocalList call \<Rightarrow> Returned (handleSendLocalListRequest call s)
         | _ \<Rightarrow> Threw json_exception s)
      else if message_type = GetLocalListVersion then
        (case json_message of
           json_GetLocalListVersion call \<Rightarrow> Returned (handleGetLocalListVersionRequest call s)
         | _ \<Rightarrow> Threw json_exception s)
      else if message_type \<in>
           {CertificateSigned, ChangeConfiguration, ClearCache, DataTransfer, GetConfiguration,
            RemoteStopTransaction, Reset, StartTransactionResponse, UnlockConnector,
            SetChargingProfile, GetCompositeSchedule, ClearChargingProfile, TriggerMessage,
            GetDiagnostics, UpdateFirmware, GetInstalledCertificateIds, DeleteCertificate,
            InstallCertificate, GetLog, SignedUpdateFirmware, ReserveNow, CancelReservation,
            ExtendedTriggerMessage}
      then other message_type json_message s
      else Returned s)"

definition handleBootNotificationResponse_json ::
  "DateTime \<Rightarrow> json \<Rightarrow> ChargePoint \<Rightarrow> ChargePoint outcome" where
  "handleBootNotificationResponse_json now json_message s =
     (case json_message of
        json_BootNotificationResponse call_result \<Rightarrow>
          Returned (handleBootNotificationResponse now call_result s)
      | _ \<Rightarrow> Threw json_exception s)"

text \<open>
  \<^verbatim>\<open>message_callback\<close>, from the frame that \<^verbatim>\<open>MessageQueue::receive\<close> has parsed.
\<close>

definition message_callback ::
  "(MessageType \<Rightarrow> json \<Rightarrow> ChargePoint \<Rightarrow> ChargePoint outcome) \<Rightarrow>
   DateTime \<Rightarrow> EnhancedMessage \<Rightarrow> ChargePoint \<Rightarrow> ChargePoint outcome" where
  "message_callback other now enhanced_message s =
     (let json_message = em_message enhanced_message in
      if messageType enhanced_message \<notin> SupportedMessageTypesReceiving (configuration s) then
        (if messageTypeId enhanced_message = CALL
         then Returned (send_CallError (em_uniqueId enhanced_message) ''NotSupported'' s)
         else Returned s)
      else
        (case connection_state s of
           Disconnected \<Rightarrow> Returned s
         | Connected \<Rightarrow>
             (if messageType enhanced_message = BootNotificationResponse
              then handleBootNotificationResponse_json now json_message s
              else Returned s)
         | Rejected \<Rightarrow>
             (if registration_status s = RegistrationStatus_Rejected then
                (if messageType enhanced_message = BootNotificationResponse
                 then handleBootNotificationResponse_json now json_message s
                 else Returned s)
              else Returned s)
         | Pending \<Rightarrow>
             (if registration_status s = RegistrationStatus_Pending then
                (if messageType enhanced_message = BootNotificationResponse
                 then handleBootNotificationResponse_json now json_message s
                 else handle_message other json_message (messageType enhanced_message) s)
              else Returned s)
         | Booted \<Rightarrow> handle_message other json_message (messageType enhanced_message) s))"

section \<open>Authorization\<close>

text \<open>\<^verbatim>\<open>validate_against_cache_entries\<close>; \<open>now\<close> is the \<^verbatim>\<open>ocpp::DateTime()\<close> it reads.\<close>

definition validate_against_cache_entries ::
  "DateTime \<Rightarrow> string \<Rightarrow> ChargePoint \<Rightarrow> bool \<times> ChargePoint" where
  "validate_against_cache_entries now tag s =
     (case get_authorization_cache_entry (database_handler s) tag of
        Some cache_entry \<Rightarrow>
          (if status cache_entry = AuthorizationStatus_Accepted then
             (case expiryDate cache_entry of
                Some expiry_date \<Rightarrow>
                  (if expiry_date < now then
                     (False,
                      s\<lparr>database_handler :=
                          insert_or_update_authorization_cache_entry tag
                            (cache_entry\<lparr>status := Expired\<rparr>) (database_handler s)\<rparr>)
                   else (True, s))
              | None \<Rightarrow> (True, s))
           else (False, s))
      | None \<Rightarrow> (False, s))"

text \<open>
  \<^verbatim>\<open>authorize_id_token\<close>, in its two parts. The local part returns an IdTagInfo when
  the local list or the cache settles the request (the cache entry read back is the one
  the validation has just found). Otherwise the online part sends an Authorize request
  through \<^verbatim>\<open>send_async\<close> and waits for the future; \<open>enhanced_message\<close> is what the
  future resolves with.
\<close>

definition authorize_id_token_local ::
  "DateTime \<Rightarrow> string \<Rightarrow> ChargePoint \<Rightarrow> IdTagInfo option \<times> ChargePoint" where
  "authorize_id_token_local now tag s =
     (if (LocalPreAuthorize (configuration s) \<and> is_connected (websocket s)) \<or>
         (LocalAuthorizeOffline (configuration s) \<and> \<not> is_connected (websocket s))
      then
        (let auth_list_entry_opt =
               (if LocalAuthListEnabled (configuration s)
                then get_local_authorization_list_entry (database_handler s) tag else None)
         in case auth_list_entry_opt of
              Some entry \<Rightarrow> (Some entry, s)
            | None \<Rightarrow>
                (if AuthorizationCacheEnabled (configuration s) then
                   (let (valid, s1) = validate_against_cache_entries now tag s
                    in if valid then (get_authorization_cache_entry (database_handler s1) tag, s1)
                       else (None, s1))
                 else (None, s)))
      else (None, s))"

definition authorize_id_token_online ::
  "EnhancedMessage \<Rightarrow> string \<Rightarrow> ChargePoint \<Rightarrow> (IdTagInfo \<times> ChargePoint) outcome" where
  "authorize_id_token_online enhanced_message tag s =
     (let req = AuthorizeRequest tag;
          (mid, s1) = createMessageId s;
          s2 = send_async \<lparr>msg = req, uniqueId = mid\<rparr> s1
      in if messageType enhanced_message = AuthorizeResponse then
           (case em_message enhanced_message of
              json_AuthorizeResponse call_result \<Rightarrow>
                (let info = au_idTagInfo (msg call_result)
                 in Returned
                      (info,
                       if status info = AuthorizationStatus_Accepted
                       then s2\<lparr>database_handler :=
                                insert_or_update_authorization_cache_entry tag info (database_handler s2)\<rparr>
                       else s2))
            | _ \<Rightarrow> Threw json_exception s2)
         else if offline enhanced_message \<and>
                 (case AllowOfflineTxForUnknownId (configuration s2) of
                    None \<Rightarrow> False | Some allow \<Rightarrow> allow)
         then Returned (\<lparr>status = AuthorizationStatus_Accepted, expiryDate = None, parentIdTag = None\<rparr>, s2)
         else Returned (\<lparr>status = Invalid, expiryDate = None, parentIdTag = None\<rparr>, s2))"

definition authorize_id_token ::
  "DateTime \<Rightarrow> EnhancedMessage \<Rightarrow> string \<Rightarrow> ChargePoint \<Rightarrow> (IdTagInfo \<times> ChargePoint) outcome" where
  "authorize_id_token now enhanced_message tag s =
     (case authorize_id_token_local now tag s of
        (Some info, s1) \<Rightarrow> Returned (info, s1)
      | (None, s1) \<Rightarrow> authorize_id_token_online enhanced_message tag s1)"

section \<open>Observing a run\<close>

text \<open>
  What a call left behind: the state it reached, the value it returned if it returned, the
  requests it enqueued and the frames it handed to the WebSocket.
\<close>

definition state_of :: "ChargePoint outcome \<Rightarrow> ChargePoint" where
  "state_of r = (case r of Returned s \<Rightarrow> s | Threw e s \<Rightarrow> s)"

definition returned :: "'a outcome \<Rightarrow> 'a option" where
  "returned r = (case r of Returned v \<Rightarrow> Some v | Threw e s \<Rightarrow> None)"

definition final_state :: "('a \<times> ChargePoint) outcome \<Rightarrow> ChargePoint" where
  "final_state r = (case r of Returned (v, s) \<Rightarrow> s | Threw e s \<Rightarrow> s)"

definition new_requests :: "ChargePoint \<Rightarrow> ChargePoint \<Rightarrow> Request list" where
  "new_requests s s' =
     map msg (drop (length (pushed (message_queue s))) (pushed (message_queue s')))"

definition new_frames :: "ChargePoint \<Rightarrow> ChargePoint \<Rightarrow> Frame list" where
  "new_frames s s' = drop (length (sent (websocket s))) (sent (websocket s'))"

definition connectorId_of :: "Request \<Rightarrow> int option" where
  "connectorId_of r =
     (case r of StatusNotificationRequest c e st \<Rightarrow> Some c | _ \<Rightarrow> None)"

text \<open>The connectors a ChangeAvailability request targets: all physical ones for connector 0.\<close>

definition targeted :: "ChangeAvailabilityRequest Call \<Rightarrow> ChargePoint \<Rightarrow> int list" where
  "targeted call s =
     (if ca_connectorId (msg call) = 0 then [1..NumberOfConnectors (configuration s)]
      else [ca_connectorId (msg call)])"

text \<open>
  Boot-before-traffic, in the words of the specification: while the registration status
  is not Accepted, a step transmits nothing but BootNotification and StopTransaction
  requests, on any outbound path.
\<close>

definition boot_before_traffic :: "ChargePoint \<Rightarrow> ChargePoint \<Rightarrow> bool" where
  "boot_before_traffic s s' =
     (if registration_status s = RegistrationStatus_Accepted then True
      else new_frames s s' = [] \<and>
           list_all (\<lambda>r. get_type r = BootNotification \<or> get_type r = StopTransaction)
             (new_requests s s'))"

section \<open>Concrete charge points\<close>

text \<open>
  A charge point as the constructor leaves it, with \<open>n\<close> physical connectors, every
  optional feature off and no callback registered; the scenarios below start from it.
\<close>

definition default_configuration :: "int \<Rightarrow> Configuration" where
  "default_configuration n =
     \<lparr>NumberOfConnectors = n, HeartbeatInterval = 0,
      SupportedMessageTypesReceiving = UNIV, SupportedFeatureProfilesSet = {Core},
      LocalAuthListEnabled = False, LocalPreAuthorize = False, LocalAuthorizeOffline = False,
      AuthorizationCacheEnabled = False, AllowOfflineTxForUnknownId = None,
      AuthorizeRemoteTxRequests = False\<rparr>"

definition empty_database :: DatabaseHandler where
  "empty_database =
     \<lparr>connector_availability = (\<lambda>c. Operative), authorization_cache = Map.empty,
      local_authorization_list = Map.empty, local_list_version = 0\<rparr>"

definition constructed :: "int \<Rightarrow> ChargePoint" where
  "constructed n =
     \<lparr>initialized = False, registration_status = RegistrationStatus_Pending,
      connection_state = Disconnected, boot_time = 0,
      configuration = default_configuration n,
      database_handler = empty_database,
      transaction_handler = \<lparr>active_transactions = Map.empty, stopped_transactions = Map.empty\<rparr>,
      change_availability_queue = Map.empty,
      cp_status = \<lparr>get_state = (\<lambda>c. Available), submitted_events = []\<rparr>,
      smart_charging_handler = \<lparr>validate_profile = (\<lambda>p c. True), tx_profiles = []\<rparr>,
      message_queue = \<lparr>pushed = [], message_id_counter = 0\<rparr>,
      websocket = \<lparr>is_connected = False, sent = []\<rparr>,
      enable_evse_callback = False, disable_evse_callback = False,
      provide_token_callback = False, switch_security_profile_callback = False,
      central_system_fallback_ca = False, invocations = []\<rparr>"

text \<open>Rejected at time 0 with a retry interval of 10 seconds.\<close>

definition rejected_charge_point :: ChargePoint where
  "rejected_charge_point =
     (constructed 1)\<lparr>initialized := True, registration_status := RegistrationStatus_Rejected,
        connection_state := Rejected, boot_time := 0,
        configuration := (default_configuration 1)\<lparr>HeartbeatInterval := 10\<rparr>\<rparr>"

text \<open>Connected, the BootNotification answered with Pending.\<close>

definition pending_charge_point :: ChargePoint where
  "pending_charge_point =
     (constructed 1)\<lparr>initialized := True, connection_state := Pending,
        websocket := \<lparr>is_connected = True, sent = []\<rparr>\<rparr>"

definition get_local_list_version_call :: EnhancedMessage where
  "get_local_list_version_call =
     \<lparr>em_message = json_GetLocalListVersion \<lparr>msg = (), uniqueId = 7\<rparr>, em_uniqueId = 7,
      messageType = GetLocalListVersion, messageTypeId = CALL, offline = False\<rparr>"

definition no_other_handlers :: "MessageType \<Rightarrow> json \<Rightarrow> ChargePoint \<Rightarrow> ChargePoint outcome" where
  "no_other_handlers message_type json_message s = Returned s"

text \<open>Booted, one connector, a transaction running on it.\<close>

definition charging_on_connector_1 :: ChargePoint where
  "charging_on_connector_1 =
     (constructed 1)\<lparr>initialized := True, registration_status := RegistrationStatus_Accepted,
        connection_state := Booted,
        transaction_handler :=
          \<lparr>active_transactions = [1 \<mapsto> \<lparr>tx_connector = 1, tx_id_tag = ''TAG01''\<rparr>],
           stopped_transactions = Map.empty\<rparr>\<rparr>"

text \<open>
  Booted, two connectors; the transaction on connector 2 has been stopped with the
  StopTransaction request 4, and an availability change is queued for connector 2.
\<close>

definition stopped_on_connector_2 :: ChargePoint where
  "stopped_on_connector_2 =
     (constructed 2)\<lparr>initialized := True, registration_status := RegistrationStatus_Accepted,
        connection_state := Booted,
        transaction_handler :=
          \<lparr>active_transactions = Map.empty,
           stopped_transactions = [4 \<mapsto> \<lparr>tx_connector = 2, tx_id_tag = ''TAG01''\<rparr>]\<rparr>,
        change_availability_queue := [2 \<mapsto> Inoperative]\<rparr>"

text \<open>The local list enabled, its stored version 5.\<close>

definition list_version_5 :: ChargePoint where
  "list_version_5 =
     (constructed 1)\<lparr>configuration := (default_configuration 1)\<lparr>LocalAuthListEnabled := True\<rparr>,
        database_handler := empty_database\<lparr>local_list_version := 5\<rparr>\<rparr>"

text \<open>
  Offline, local authorization and the cache enabled, the cache holding TAG02 as Accepted
  with an expiry date of 99; \<open>allow\<close> is the AllowOfflineTxForUnknownId setting.
\<close>

definition expired_cache_entry :: "bool option \<Rightarrow> ChargePoint" where
  "expired_cache_entry allow =
     (constructed 1)\<lparr>initialized := True, registration_status := RegistrationStatus_Accepted,
        connection_state := Booted,
        configuration := (default_configuration 1)
          \<lparr>LocalAuthorizeOffline := True, AuthorizationCacheEnabled := True,
           AllowOfflineTxForUnknownId := allow\<rparr>,
        database_handler := empty_database
          \<lparr>authorization_cache :=
             [''TAG02'' \<mapsto> \<lparr>status = AuthorizationStatus_Accepted, expiryDate = Some 99,
                              parentIdTag = None\<rparr>]\<rparr>\<rparr>"

text \<open>A future resolved because the queue stayed paused: no response, offline set.\<close>

definition resolved_offline :: EnhancedMessage where
  "resolved_offline =
     \<lparr>em_message = json_other, em_uniqueId = 0, messageType = InternalError,
      messageTypeId = CALLERROR, offline = True\<rparr>"

text \<open>Two connectors, connected, the BootNotification answered with Accepted at time 0.\<close>

definition booted_charge_point :: ChargePoint where
  "booted_charge_point =
     handleBootNotificationResponse 0
       \<lparr>msg = BootNotificationResponse_msg RegistrationStatus_Accepted 60, uniqueId = 0\<rparr>
       ((constructed 2)\<lparr>connection_state := Connected,
          websocket := \<lparr>is_connected = True, sent = []\<rparr>\<rparr>)"

section \<open>Facts about the building blocks\<close>

lemma change_connector_queue [simp]:
  "change_availability_queue (change_connector a c s) = change_availability_queue s"
  by (simp add: change_connector_def submit_event_def invoke_def)

lemma change_connector_db [simp]:
  "database_handler (change_connector a c s) = database_handler s"
  by (simp add: change_connector_def submit_event_def invoke_def)

lemma change_connector_websocket [simp]:
  "websocket (change_connector a c s) = websocket s"
  by (simp add: change_connector_def submit_event_def invoke_def)

lemma change_connector_events:
  "submitted_events (cp_status (change_connector a c s)) =
     submitted_events (cp_status s) @
       [(c, if a = Operative then Event_BecomeAvailable else Event_ChangeAvailabilityToUnavailable)]"
  by (simp add: change_connector_def submit_event_def invoke_def)

lemma insert_or_update_connector_availability_eq:
  "connector_availability (insert_or_update_connector_availability cs ty db) =
     (\<lambda>c. if c \<in> set cs then ty else connector_availability db c)"
  by (induction cs arbitrary: db) auto

lemma insert_or_update_local_authorization_list_version [simp]:
  "local_list_version (insert_or_update_local_authorization_list xs db) = local_list_version db"
  by (induction xs arbitrary: db) simp_all

lemma count_upto:
  "length (filter (\<lambda>x. x = c) [a..b]) = (if a \<le> c \<and> c \<le> b then 1 else 0)"
proof -
  have "length (filter (\<lambda>x. x = c) [a..b]) = card ({x. x = c} \<inter> set [a..b])"
    by (rule distinct_length_filter) simp
  also have "{x. x = c} \<inter> set [a..b] = (if a \<le> c \<and> c \<le> b then {c} else {})"
    by auto
  finally show ?thesis by simp
qed

section \<open>The gate of \<^verbatim>\<open>send\<close>\<close>

text \<open>
  While the registration is Rejected and the retry time has not come, no request passes
  the gate; from the retry time on, every request does, whatever its type.
\<close>

lemma allowed_to_send_message_Rejected_before_retry:
  assumes "initialized s" and "registration_status s = RegistrationStatus_Rejected"
    and "now < boot_time s + HeartbeatInterval (configuration s)"
  shows "\<not> allowed_to_send_message now call s"
  using assms by (simp add: allowed_to_send_message_def)

lemma allowed_to_send_message_Rejected_after_retry:
  assumes "initialized s" and "registration_status s = RegistrationStatus_Rejected"
    and "boot_time s + HeartbeatInterval (configuration s) \<le> now"
  shows "allowed_to_send_message now call s"
  using assms by (simp add: allowed_to_send_message_def)

text \<open>
  C1. Rejected and initialized: before boot_time + heartbeat_interval nothing may go out,
  afterwards only a BootNotification. The code lets a Heartbeat through at the retry time:
  the charge point rejected at time 0 with an interval of 10 seconds is allowed to send it
  at time 10, although at time 9 it still was not.
\<close>

theorem allowed_to_send_message_Rejected_passes_Heartbeat:
  "\<not> allowed_to_send_message 9 \<lparr>msg = OtherRequest Heartbeat, uniqueId = 0\<rparr> rejected_charge_point \<and>
   allowed_to_send_message 10 \<lparr>msg = OtherRequest Heartbeat, uniqueId = 0\<rparr> rejected_charge_point \<and>
   new_requests rejected_charge_point
     (snd (send_Call 10 \<lparr>msg = OtherRequest Heartbeat, uniqueId = 0\<rparr> rejected_charge_point)) =
     [OtherRequest Heartbeat]"
  by (simp add: allowed_to_send_message_def send_Call_def push_def new_requests_def
      rejected_charge_point_def constructed_def default_configuration_def)

text \<open>
  C2. Before the registration is Accepted nothing but BootNotification and StopTransaction
  is transmitted, on any outbound path. What holds is narrower: while the charge point is
  not initialized, or Pending, or Rejected with the retry time still ahead, the gated
  \<^verbatim>\<open>send\<close> of a Call enqueues nothing but BootNotification and StopTransaction; a
  CallResult and a CallError go to the WebSocket without passing any gate.
\<close>

theorem send_Call_gated_responses_not:
  assumes "\<not> initialized s \<or> registration_status s = RegistrationStatus_Pending \<or>
           (registration_status s = RegistrationStatus_Rejected \<and>
            now < boot_time s + HeartbeatInterval (configuration s))"
  shows "new_requests s (snd (send_Call now call s)) =
           (if fst (send_Call now call s) then [msg call] else []) \<and>
         list_all (\<lambda>r. get_type r = BootNotification \<or> get_type r = StopTransaction)
           (new_requests s (snd (send_Call now call s))) \<and>
         new_frames s (send_CallResult call_result s) = [CallResultFrame call_result] \<and>
         new_frames s (send_CallError uid errorCode s) = [CallErrorFrame uid errorCode]"
  using assms
  by (auto simp add: send_Call_def allowed_to_send_message_def push_def send_CallResult_def
      send_CallError_def websocket_send_def new_requests_def new_frames_def Let_def)

theorem send_Call_gated_responses_not_witness:
  "registration_status pending_charge_point = RegistrationStatus_Pending \<and>
   new_requests pending_charge_point
     (snd (send_Call 0 \<lparr>msg = OtherRequest Heartbeat, uniqueId = 0\<rparr> pending_charge_point)) = [] \<and>
   new_requests pending_charge_point
     (snd (send_Call 0 \<lparr>msg = OtherRequest StopTransaction, uniqueId = 0\<rparr> pending_charge_point)) =
     [OtherRequest StopTransaction]"
proof -
  have h: "\<not> initialized pending_charge_point \<or>
           registration_status pending_charge_point = RegistrationStatus_Pending \<or>
           (registration_status pending_charge_point = RegistrationStatus_Rejected \<and>
            0 < boot_time pending_charge_point + HeartbeatInterval (configuration pending_charge_point))"
    by (simp add: pending_charge_point_def constructed_def)
  show ?thesis
    using send_Call_gated_responses_not [OF h, of "\<lparr>msg = OtherRequest Heartbeat, uniqueId = 0\<rparr>"]
      send_Call_gated_responses_not [OF h, of "\<lparr>msg = OtherRequest StopTransaction, uniqueId = 0\<rparr>"]
    by (simp add: send_Call_def allowed_to_send_message_def pending_charge_point_def
        constructed_def)
qed

text \<open>
  The claim C2 as stated fails on the response path: a charge point in the Pending state
  that receives GetLocalListVersion answers it with a CallResult.
\<close>

theorem boot_before_traffic_fails_in_Pending:
  "registration_status pending_charge_point = RegistrationStatus_Pending \<and>
   new_frames pending_charge_point
     (state_of (message_callback no_other_handlers 0 get_local_list_version_call
        pending_charge_point)) =
     [CallResultFrame \<lparr>msg = GetLocalListVersionResponse (- 1), uniqueId = 7\<rparr>] \<and>
   \<not> boot_before_traffic pending_charge_point
     (state_of (message_callback no_other_handlers 0 get_local_list_version_call
        pending_charge_point))"
  by (simp add: boot_before_traffic_def new_frames_def new_requests_def state_of_def
      message_callback_def handle_message_def handleGetLocalListVersionRequest_def
      send_CallResult_def websocket_send_def get_local_list_version_call_def
      pending_charge_point_def constructed_def default_configuration_def)

section \<open>ChangeAvailability\<close>

text \<open>
  The loop for connector 0 in closed form: a transaction is running if one runs on any
  connector visited, the connectors without one are collected in order, and exactly the
  connectors with one get the requested type queued.
\<close>

lemma handleChangeAvailabilityRequest_loop_eq:
  "handleChangeAvailabilityRequest_loop ty cs (tr, conns, s) =
     (tr \<or> (\<exists>c\<in>set cs. transaction_active (transaction_handler s) c),
      conns @ filter (\<lambda>c. \<not> transaction_active (transaction_handler s) c) cs,
      s\<lparr>change_availability_queue :=
           (\<lambda>c. if c \<in> set cs \<and> transaction_active (transaction_handler s) c then Some ty
                else change_availability_queue s c)\<rparr>)"
proof (induction cs arbitrary: tr conns s)
  case Nil
  then show ?case by simp
next
  case (Cons c cs)
  show ?case
  proof (cases "transaction_active (transaction_handler s) c")
    case True
    then show ?thesis
      by (simp add: Cons.IH)
         (rule arg_cong [where f = "\<lambda>q. s\<lparr>change_availability_queue := q\<rparr>"], auto)
  next
    case False
    then show ?thesis
      by (simp add: Cons.IH)
         (rule arg_cong [where f = "\<lambda>q. s\<lparr>change_availability_queue := q\<rparr>"], auto)
  qed
qed

lemma handleChangeAvailabilityRequest_apply_events:
  "submitted_events (cp_status (handleChangeAvailabilityRequest_apply ty cs s)) =
     submitted_events (cp_status s) @
       map (\<lambda>c. (c, if ty = Operative then Event_BecomeAvailable
                     else Event_ChangeAvailabilityToUnavailable)) cs"
  by (induction cs arbitrary: s) (simp_all add: change_connector_events)

lemma handleChangeAvailabilityRequest_apply_db [simp]:
  "database_handler (handleChangeAvailabilityRequest_apply ty cs s) = database_handler s"
  by (induction cs arbitrary: s) simp_all

lemma handleChangeAvailabilityRequest_apply_websocket [simp]:
  "websocket (handleChangeAvailabilityRequest_apply ty cs s) = websocket s"
  by (induction cs arbitrary: s) simp_all

text \<open>
  The two parts of the ChangeAvailability contract that the code keeps. For connector 0
  with a transaction on some physical connector: Scheduled, and the type queued for every
  connector with a transaction. With no transaction on any targeted connector: Accepted,
  the availability persisted and the event submitted for every targeted connector.
\<close>

lemma handleChangeAvailabilityRequest_all_connectors_Scheduled:
  assumes "ca_connectorId (msg call) = 0" and "0 \<le> NumberOfConnectors (configuration s)"
    and "\<exists>c\<in>set (targeted call s). transaction_active (transaction_handler s) c"
  shows "new_frames s (handleChangeAvailabilityRequest call s) =
           [CallResultFrame \<lparr>msg = ChangeAvailabilityResponse AvailabilityStatus_Scheduled,
                            uniqueId = uniqueId call\<rparr>]"
    and "\<forall>c\<in>set (targeted call s). transaction_active (transaction_handler s) c \<longrightarrow>
           change_availability_queue (handleChangeAvailabilityRequest call s) c =
             Some (ca_type (msg call))"
  using assms
  by (auto simp add: handleChangeAvailabilityRequest_def targeted_def new_frames_def
      handleChangeAvailabilityRequest_loop_eq send_CallResult_def websocket_send_def)

lemma handleChangeAvailabilityRequest_no_transaction_Accepted:
  assumes "0 \<le> ca_connectorId (msg call)"
    and "ca_connectorId (msg call) \<le> NumberOfConnectors (configuration s)"
    and "\<forall>c\<in>set (targeted call s). \<not> transaction_active (transaction_handler s) c"
  shows "new_frames s (handleChangeAvailabilityRequest call s) =
           [CallResultFrame \<lparr>msg = ChangeAvailabilityResponse AvailabilityStatus_Accepted,
                            uniqueId = uniqueId call\<rparr>]"
    and "\<forall>c\<in>set (targeted call s).
           connector_availability (database_handler (handleChangeAvailabilityRequest call s)) c =
             ca_type (msg call)"
    and "submitted_events (cp_status (handleChangeAvailabilityRequest call s)) =
           submitted_events (cp_status s) @
             map (\<lambda>c. (c, if ca_type (msg call) = Operative then Event_BecomeAvailable
                           else Event_ChangeAvailabilityToUnavailable)) (targeted call s)"
proof -
  have f: "filter (\<lambda>c. \<not> transaction_active (transaction_handler s) c) (targeted call s) =
           targeted call s"
    using assms(3) by (simp add: filter_id_conv)
  show "new_frames s (handleChangeAvailabilityRequest call s) =
           [CallResultFrame \<lparr>msg = ChangeAvailabilityResponse AvailabilityStatus_Accepted,
                            uniqueId = uniqueId call\<rparr>]"
    using assms f
    by (cases "ca_connectorId (msg call) = 0")
       (simp_all add: handleChangeAvailabilityRequest_def targeted_def new_frames_def
        handleChangeAvailabilityRequest_loop_eq send_CallResult_def websocket_send_def Let_def)
  show "\<forall>c\<in>set (targeted call s).
           connector_availability (database_handler (handleChangeAvailabilityRequest call s)) c =
             ca_type (msg call)"
    using assms f
    by (cases "ca_connectorId (msg call) = 0")
       (simp_all add: handleChangeAvailabilityRequest_def targeted_def
        handleChangeAvailabilityRequest_loop_eq send_CallResult_def websocket_send_def Let_def
        insert_or_update_connector_availability_eq)
  show "submitted_events (cp_status (handleChangeAvailabilityRequest call s)) =
           submitted_events (cp_status s) @
             map (\<lambda>c. (c, if ca_type (msg call) = Operative then Event_BecomeAvailable
                           else Event_ChangeAvailabilityToUnavailable)) (targeted call s)"
    using assms f
    by (cases "ca_connectorId (msg call) = 0")
       (simp_all add: handleChangeAvailabilityRequest_def targeted_def
        handleChangeAvailabilityRequest_loop_eq send_CallResult_def websocket_send_def Let_def
        handleChangeAvailabilityRequest_apply_events change_connector_events)
qed

text \<open>
  C3. A ChangeAvailability request that targets a connector with an active transaction is
  answered with Scheduled and the requested type is queued for that connector. The code
  queues only in the loop for connector 0: a request for connector 1 itself, with a
  transaction running there, is answered with Scheduled and leaves the queue empty, while
  the same request for connector 0 does queue the change for connector 1.
\<close>

theorem handleChangeAvailabilityRequest_single_connector_not_queued:
  "new_frames charging_on_connector_1
     (handleChangeAvailabilityRequest
        \<lparr>msg = ChangeAvailabilityRequest 1 Inoperative, uniqueId = 5\<rparr> charging_on_connector_1) =
     [CallResultFrame \<lparr>msg = ChangeAvailabilityResponse AvailabilityStatus_Scheduled, uniqueId = 5\<rparr>] \<and>
   change_availability_queue
     (handleChangeAvailabilityRequest
        \<lparr>msg = ChangeAvailabilityRequest 1 Inoperative, uniqueId = 5\<rparr> charging_on_connector_1) 1 =
     None \<and>
   change_availability_queue
     (handleChangeAvailabilityRequest
        \<lparr>msg = ChangeAvailabilityRequest 0 Inoperative, uniqueId = 5\<rparr> charging_on_connector_1) 1 =
     Some Inoperative"
  by (simp add: handleChangeAvailabilityRequest_def charging_on_connector_1_def constructed_def
      default_configuration_def transaction_active_def get_transaction_def send_CallResult_def
      websocket_send_def new_frames_def)

section \<open>StopTransactionResponse\<close>

text \<open>
  C4. \<^verbatim>\<open>handleStopTransactionResponse\<close> works on the constant connector 1, whatever
  transaction the response belongs to: the queue entry of connector 1 is the one removed,
  and if there was one, it is the availability of connector 1 that is persisted and the
  state machine of connector 1 that receives the event. Nothing queued for another
  connector is touched.
\<close>

theorem handleStopTransactionResponse_connector_1:
  "change_availability_queue (handleStopTransactionResponse call_result s) =
     (change_availability_queue s)(1 := None) \<and>
   connector_availability (database_handler (handleStopTransactionResponse call_result s)) =
     (case change_availability_queue s 1 of
        None \<Rightarrow> connector_availability (database_handler s)
      | Some a \<Rightarrow> (connector_availability (database_handler s))(1 := a)) \<and>
   submitted_events (cp_status (handleStopTransactionResponse call_result s)) =
     submitted_events (cp_status s) @
       (case change_availability_queue s 1 of
          None \<Rightarrow> []
        | Some a \<Rightarrow>
            [(1, if a = Operative then Event_BecomeAvailable
                 else Event_ChangeAvailabilityToUnavailable)])"
  by (simp add: handleStopTransactionResponse_def Let_def change_connector_events
      insert_or_update_authorization_cache_entry_def split: option.splits)

text \<open>
  The response to the StopTransaction of connector 2 leaves the change queued for
  connector 2 where it is, persists nothing and submits no event.
\<close>

theorem handleStopTransactionResponse_connector_1_witness:
  "get_authorized_id_tag (transaction_handler stopped_on_connector_2) 4 = Some ''TAG01'' \<and>
   change_availability_queue
     (handleStopTransactionResponse \<lparr>msg = StopTransactionResponse_msg None, uniqueId = 4\<rparr>
        stopped_on_connector_2) 2 = Some Inoperative \<and>
   connector_availability (database_handler
     (handleStopTransactionResponse \<lparr>msg = StopTransactionResponse_msg None, uniqueId = 4\<rparr>
        stopped_on_connector_2)) 2 = Operative \<and>
   submitted_events (cp_status
     (handleStopTransactionResponse \<lparr>msg = StopTransactionResponse_msg None, uniqueId = 4\<rparr>
        stopped_on_connector_2)) = []"
  using handleStopTransactionResponse_connector_1
    [of "\<lparr>msg = StopTransactionResponse_msg None, uniqueId = 4\<rparr>" stopped_on_connector_2]
  by (simp add: stopped_on_connector_2_def constructed_def empty_database_def
      get_authorized_id_tag_def)

section \<open>The local authorization list\<close>

text \<open>
  C5. After an accepted SendLocalList the stored version is at least the previous one.
  This fails for a Full update, which stores the version of the request without comparing
  it: version 5 is replaced by version 3 and the response is Accepted.
\<close>

theorem handleSendLocalListRequest_Full_lowers_version:
  "new_frames list_version_5
     (handleSendLocalListRequest \<lparr>msg = SendLocalListRequest 3 None Full, uniqueId = 9\<rparr>
        list_version_5) =
     [CallResultFrame \<lparr>msg = SendLocalListResponse UpdateStatus_Accepted, uniqueId = 9\<rparr>] \<and>
   local_list_version (database_handler list_version_5) = 5 \<and>
   local_list_version (database_handler
     (handleSendLocalListRequest \<lparr>msg = SendLocalListRequest 3 None Full, uniqueId = 9\<rparr>
        list_version_5)) = 3 \<and>
   \<not> local_list_version (database_handler list_version_5) \<le>
     local_list_version (database_handler
       (handleSendLocalListRequest \<lparr>msg = SendLocalListRequest 3 None Full, uniqueId = 9\<rparr>
          list_version_5))"
  by (simp add: handleSendLocalListRequest_def list_version_5_def constructed_def
      default_configuration_def empty_database_def send_CallResult_def websocket_send_def
      insert_or_update_local_list_version_def clear_local_authorization_list_def new_frames_def)

text \<open>
  C5 as the code has it: after an accepted SendLocalList the stored version is the version
  of the request; for a Differential update that is greater than the previous version, and
  an accepted update that is not Differential is Full.
\<close>

theorem handleSendLocalListRequest_Accepted_version:
  assumes "new_frames s (handleSendLocalListRequest call s) =
             [CallResultFrame \<lparr>msg = SendLocalListResponse UpdateStatus_Accepted,
                              uniqueId = uniqueId call\<rparr>]"
  shows "local_list_version (database_handler (handleSendLocalListRequest call s)) =
           sl_listVersion (msg call) \<and>
         (if sl_updateType (msg call) = Differential
          then local_list_version (database_handler s) <
                 local_list_version (database_handler (handleSendLocalListRequest call s))
          else sl_updateType (msg call) = Full)"
  using assms
  by (cases "sl_updateType (msg call)")
     (auto simp add: handleSendLocalListRequest_def send_CallResult_def websocket_send_def
      insert_or_update_local_list_version_def clear_local_authorization_list_def
      get_local_list_version_def new_frames_def Let_def split: if_splits option.splits)

theorem handleSendLocalListRequest_Accepted_version_witness:
  "new_frames list_version_5
     (handleSendLocalListRequest
        \<lparr>msg = SendLocalListRequest 7
                 (Some [\<lparr>idTag = ''TAG01'', idTagInfo = None\<rparr>]) Differential,
         uniqueId = 9\<rparr> list_version_5) =
     [CallResultFrame \<lparr>msg = SendLocalListResponse UpdateStatus_Accepted, uniqueId = 9\<rparr>] \<and>
   local_list_version (database_handler list_version_5) = 5 \<and>
   local_list_version (database_handler
     (handleSendLocalListRequest
        \<lparr>msg = SendLocalListRequest 7
                 (Some [\<lparr>idTag = ''TAG01'', idTagInfo = None\<rparr>]) Differential,
         uniqueId = 9\<rparr> list_version_5)) = 7"
proof -
  let ?call = "\<lparr>msg = SendLocalListRequest 7
                 (Some [\<lparr>idTag = ''TAG01'', idTagInfo = None\<rparr>]) Differential,
               uniqueId = 9\<rparr>"
  have h: "new_frames list_version_5 (handleSendLocalListRequest ?call list_version_5) =
             [CallResultFrame \<lparr>msg = SendLocalListResponse UpdateStatus_Accepted,
                              uniqueId = uniqueId ?call\<rparr>]"
    by (simp add: handleSendLocalListRequest_def list_version_5_def constructed_def
        default_configuration_def empty_database_def send_CallResult_def websocket_send_def
        get_local_list_version_def new_frames_def Let_def)
  have v: "local_list_version (database_handler list_version_5) = 5"
    by (simp add: list_version_5_def constructed_def empty_database_def)
  show ?thesis
    using handleSendLocalListRequest_Accepted_version [OF h] h v by simp
qed

text \<open>
  C9. The response to GetLocalListVersion carries -1 when LocalAuthListManagement is not
  among the supported feature profiles, and the version read from the durable store
  otherwise.
\<close>

theorem handleGetLocalListVersionRequest_listVersion:
  "new_frames s (handleGetLocalListVersionRequest call s) =
     [CallResultFrame
        \<lparr>msg = GetLocalListVersionResponse
                (if LocalAuthListManagement \<notin> SupportedFeatureProfilesSet (configuration s)
                 then - 1 else get_local_list_version (database_handler s)),
         uniqueId = uniqueId call\<rparr>]"
  by (simp add: handleGetLocalListVersionRequest_def send_CallResult_def websocket_send_def
      new_frames_def)

theorem handleGetLocalListVersionRequest_listVersion_witness:
  "new_frames list_version_5
     (handleGetLocalListVersionRequest \<lparr>msg = (), uniqueId = 3\<rparr> list_version_5) =
     [CallResultFrame \<lparr>msg = GetLocalListVersionResponse (- 1), uniqueId = 3\<rparr>] \<and>
   new_frames
     (list_version_5\<lparr>configuration := (configuration list_version_5)
        \<lparr>SupportedFeatureProfilesSet := {Core, LocalAuthListManagement}\<rparr>\<rparr>)
     (handleGetLocalListVersionRequest \<lparr>msg = (), uniqueId = 3\<rparr>
        (list_version_5\<lparr>configuration := (configuration list_version_5)
           \<lparr>SupportedFeatureProfilesSet := {Core, LocalAuthListManagement}\<rparr>\<rparr>)) =
     [CallResultFrame \<lparr>msg = GetLocalListVersionResponse 5, uniqueId = 3\<rparr>]"
  using handleGetLocalListVersionRequest_listVersion
    [of list_version_5 "\<lparr>msg = (), uniqueId = 3\<rparr>"]
    handleGetLocalListVersionRequest_listVersion
    [of "list_version_5\<lparr>configuration := (configuration list_version_5)
           \<lparr>SupportedFeatureProfilesSet := {Core, LocalAuthListManagement}\<rparr>\<rparr>"
        "\<lparr>msg = (), uniqueId = 3\<rparr>"]
  by (simp add: list_version_5_def constructed_def default_configuration_def
      empty_database_def get_local_list_version_def)

section \<open>RemoteStartTransaction\<close>

text \<open>
  C10. A RemoteStartTransaction request with neither connectorId nor chargingProfile is
  answered with Accepted, whatever the state of the connectors, and the provide-token
  callback is called with the connectors 1 to NumberOfConnectors (and with the token
  prevalidated unless AuthorizeRemoteTxRequests is set). The callback can only be called
  if it is registered; the response has gone out before.
\<close>

theorem handleRemoteStartTransactionRequest_without_connector:
  assumes "rs_connectorId (msg call) = None" and "rs_chargingProfile (msg call) = None"
  shows "new_frames s (state_of (handleRemoteStartTransactionRequest call s)) =
           [CallResultFrame
              \<lparr>msg = RemoteStartTransactionResponse RemoteStartStopStatus_Accepted,
               uniqueId = uniqueId call\<rparr>] \<and>
         invocations (state_of (handleRemoteStartTransactionRequest call s)) =
           invocations s @
             (if provide_token_callback s
              then [provide_token (rs_idTag (msg call))
                      [1..NumberOfConnectors (configuration s)]
                      (\<not> AuthorizeRemoteTxRequests (configuration s))]
              else []) \<and>
         returned (handleRemoteStartTransactionRequest call s) =
           (if provide_token_callback s
            then Some (state_of (handleRemoteStartTransactionRequest call s)) else None)"
  using assms
  by (simp add: handleRemoteStartTransactionRequest_def
      handleRemoteStartTransactionRequest_accept_def state_of_def returned_def
      send_CallResult_def websocket_send_def invoke_def new_frames_def Let_def)

text \<open>
  Two connectors, a transaction running on none or on all of them: the token of the request
  is offered for the connectors 1 and 2, prevalidated.
\<close>

theorem handleRemoteStartTransactionRequest_without_connector_witness:
  "new_frames ((constructed 2)\<lparr>provide_token_callback := True\<rparr>)
     (state_of (handleRemoteStartTransactionRequest
        \<lparr>msg = RemoteStartTransactionRequest ''TAG01'' None None, uniqueId = 8\<rparr>
        ((constructed 2)\<lparr>provide_token_callback := True\<rparr>))) =
     [CallResultFrame
        \<lparr>msg = RemoteStartTransactionResponse RemoteStartStopStatus_Accepted, uniqueId = 8\<rparr>] \<and>
   invocations (state_of (handleRemoteStartTransactionRequest
        \<lparr>msg = RemoteStartTransactionRequest ''TAG01'' None None, uniqueId = 8\<rparr>
        ((constructed 2)\<lparr>provide_token_callback := True\<rparr>))) =
     [provide_token ''TAG01'' [1, 2] True]"
proof -
  let ?call = "\<lparr>msg = RemoteStartTransactionRequest ''TAG01'' None None, uniqueId = 8\<rparr>"
  have h1: "rs_connectorId (msg ?call) = None" and h2: "rs_chargingProfile (msg ?call) = None"
    by simp_all
  have u: "[1..(2::int)] = [1, 2]"
    by (simp add: upto_rec1)
  show ?thesis
    using handleRemoteStartTransactionRequest_without_connector
      [OF h1 h2, of "(constructed 2)\<lparr>provide_token_callback := True\<rparr>"]
    by (simp add: constructed_def default_configuration_def u)
qed

section \<open>Authorization\<close>

lemma validate_against_cache_entries_expired:
  assumes "authorization_cache (database_handler s) tag = Some e"
    and "status e = AuthorizationStatus_Accepted" and "expiryDate e = Some d" and "d < now"
  shows "validate_against_cache_entries now tag s =
           (False,
            s\<lparr>database_handler := (database_handler s)
                \<lparr>authorization_cache :=
                   (authorization_cache (database_handler s))(tag \<mapsto> e\<lparr>status := Expired\<rparr>)\<rparr>\<rparr>)"
  using assms
  by (simp add: validate_against_cache_entries_def get_authorization_cache_entry_def
      insert_or_update_authorization_cache_entry_def)

lemma authorize_id_token_local_configuration [simp]:
  "configuration (snd (authorize_id_token_local now tag s)) = configuration s"
  by (simp add: authorize_id_token_local_def validate_against_cache_entries_def Let_def
      split: option.splits prod.splits if_splits)

text \<open>
  C6. Looking up an id tag whose cache entry is Accepted and expired yields Invalid and
  rewrites the entry as Expired. The result is not always Invalid: the expired entry sends
  \<^verbatim>\<open>authorize_id_token\<close> on to the online request, and when that resolves offline
  with AllowOfflineTxForUnknownId set, the tag is Accepted, with the entry rewritten as
  Expired all the same.
\<close>

theorem authorize_id_token_expired_entry_Accepted:
  "authorization_cache (database_handler (expired_cache_entry (Some True))) ''TAG02'' =
     Some \<lparr>status = AuthorizationStatus_Accepted, expiryDate = Some 99, parentIdTag = None\<rparr> \<and>
   map_option fst
     (returned (authorize_id_token 100 resolved_offline ''TAG02'' (expired_cache_entry (Some True)))) =
     Some \<lparr>status = AuthorizationStatus_Accepted, expiryDate = None, parentIdTag = None\<rparr> \<and>
   map_option (status \<circ> fst)
     (returned (authorize_id_token 100 resolved_offline ''TAG02'' (expired_cache_entry (Some True)))) \<noteq>
     Some Invalid \<and>
   authorization_cache (database_handler (final_state
     (authorize_id_token 100 resolved_offline ''TAG02'' (expired_cache_entry (Some True))))) ''TAG02'' =
     Some \<lparr>status = Expired, expiryDate = Some 99, parentIdTag = None\<rparr>"
  by (simp add: authorize_id_token_def authorize_id_token_online_def authorize_id_token_local_def
      validate_against_cache_entries_def get_authorization_cache_entry_def
      insert_or_update_authorization_cache_entry_def createMessageId_def send_async_def push_def
      expired_cache_entry_def resolved_offline_def constructed_def default_configuration_def
      empty_database_def Let_def returned_def final_state_def)

text \<open>
  What the local part does with such an entry, and what the online part does after it,
  whatever the future resolves with.
\<close>

lemma authorize_id_token_local_expired:
  assumes "authorization_cache (database_handler s) tag = Some e"
    and "status e = AuthorizationStatus_Accepted" and "expiryDate e = Some d" and "d < now"
    and "(LocalPreAuthorize (configuration s) \<and> is_connected (websocket s)) \<or>
         (LocalAuthorizeOffline (configuration s) \<and> \<not> is_connected (websocket s))"
    and "AuthorizationCacheEnabled (configuration s)"
    and "\<not> LocalAuthListEnabled (configuration s) \<or>
         local_authorization_list (database_handler s) tag = None"
  shows "authorize_id_token_local now tag s =
           (None,
            s\<lparr>database_handler :=
                insert_or_update_authorization_cache_entry tag (e\<lparr>status := Expired\<rparr>)
                  (database_handler s)\<rparr>)"
  using assms(5,6,7) validate_against_cache_entries_expired [OF assms(1,2,3,4)]
  by (auto simp add: authorize_id_token_local_def get_local_authorization_list_entry_def
      insert_or_update_authorization_cache_entry_def)

lemma authorize_id_token_online_requests:
  "new_requests s (final_state (authorize_id_token_online enhanced_message tag s)) =
     [AuthorizeRequest tag]"
  by (cases "em_message enhanced_message")
     (simp_all add: authorize_id_token_online_def createMessageId_def send_async_def push_def
      new_requests_def final_state_def Let_def)

lemma authorize_id_token_online_no_response:
  assumes "messageType enhanced_message \<noteq> AuthorizeResponse"
  shows "returned (authorize_id_token_online enhanced_message tag s) =
           Some (\<lparr>status = (if offline enhanced_message \<and>
                                AllowOfflineTxForUnknownId (configuration s) = Some True
                             then AuthorizationStatus_Accepted else Invalid),
                   expiryDate = None, parentIdTag = None\<rparr>,
                 final_state (authorize_id_token_online enhanced_message tag s))"
    and "database_handler (final_state (authorize_id_token_online enhanced_message tag s)) =
           database_handler s"
  using assms
  by (cases "AllowOfflineTxForUnknownId (configuration s)";
      auto simp add: authorize_id_token_online_def createMessageId_def send_async_def push_def
        returned_def final_state_def Let_def)+

lemma authorize_id_token_online_response:
  assumes "messageType enhanced_message = AuthorizeResponse"
    and "em_message enhanced_message = json_AuthorizeResponse call_result"
  shows "returned (authorize_id_token_online enhanced_message tag s) =
           Some (au_idTagInfo (msg call_result),
                 final_state (authorize_id_token_online enhanced_message tag s))"
    and "database_handler (final_state (authorize_id_token_online enhanced_message tag s)) =
           (if status (au_idTagInfo (msg call_result)) = AuthorizationStatus_Accepted
            then insert_or_update_authorization_cache_entry tag (au_idTagInfo (msg call_result))
                   (database_handler s)
            else database_handler s)"
  using assms
  by (simp_all add: authorize_id_token_online_def createMessageId_def send_async_def push_def
      returned_def final_state_def Let_def)

text \<open>
  C6 as the code has it. Where \<^verbatim>\<open>authorize_id_token\<close> consults the cache (local
  authorization applies to the connection state, the cache is enabled, the local list does
  not hold the tag) and finds the entry Accepted and expired, then, whatever the future
  resolves with: the local part settles nothing and rewrites the entry in the store as
  Expired, and exactly one request is enqueued, the Authorize for the tag. The future
  decides the rest. Without an AuthorizeResponse the result is Invalid, unless the future
  resolved offline with AllowOfflineTxForUnknownId set and true, when it is Accepted; the
  store keeps the Expired entry. With an AuthorizeResponse the result is the IdTagInfo of
  the response, which replaces the Expired entry in the store if its status is Accepted.
\<close>

theorem authorize_id_token_expired_entry:
  assumes "authorization_cache (database_handler s) tag = Some e"
    and "status e = AuthorizationStatus_Accepted" and "expiryDate e = Some d" and "d < now"
    and "(LocalPreAuthorize (configuration s) \<and> is_connected (websocket s)) \<or>
         (LocalAuthorizeOffline (configuration s) \<and> \<not> is_connected (websocket s))"
    and "AuthorizationCacheEnabled (configuration s)"
    and "\<not> LocalAuthListEnabled (configuration s) \<or>
         local_authorization_list (database_handler s) tag = None"
  shows "fst (authorize_id_token_local now tag s) = None \<and>
         database_handler (snd (authorize_id_token_local now tag s)) =
           insert_or_update_authorization_cache_entry tag (e\<lparr>status := Expired\<rparr>)
             (database_handler s) \<and>
         new_requests s (final_state (authorize_id_token now enhanced_message tag s)) =
           [AuthorizeRequest tag] \<and>
         (if messageType enhanced_message \<noteq> AuthorizeResponse then
            map_option fst (returned (authorize_id_token now enhanced_message tag s)) =
              Some \<lparr>status = (if offline enhanced_message \<and>
                                 AllowOfflineTxForUnknownId (configuration s) = Some True
                              then AuthorizationStatus_Accepted else Invalid),
                    expiryDate = None, parentIdTag = None\<rparr> \<and>
            authorization_cache (database_handler
              (final_state (authorize_id_token now enhanced_message tag s))) tag =
              Some (e\<lparr>status := Expired\<rparr>)
          else
            (\<forall>call_result. em_message enhanced_message = json_AuthorizeResponse call_result \<longrightarrow>
               map_option fst (returned (authorize_id_token now enhanced_message tag s)) =
                 Some (au_idTagInfo (msg call_result)) \<and>
               authorization_cache (database_handler
                 (final_state (authorize_id_token now enhanced_message tag s))) tag =
                 Some (if status (au_idTagInfo (msg call_result)) = AuthorizationStatus_Accepted
                       then au_idTagInfo (msg call_result) else e\<lparr>status := Expired\<rparr>)))"
proof -
  let ?s1 = "s\<lparr>database_handler :=
                insert_or_update_authorization_cache_entry tag (e\<lparr>status := Expired\<rparr>)
                  (database_handler s)\<rparr>"
  have l: "authorize_id_token_local now tag s = (None, ?s1)"
    by (rule authorize_id_token_local_expired [OF assms])
  have t: "authorize_id_token now enhanced_message tag s =
             authorize_id_token_online enhanced_message tag ?s1"
    by (simp add: authorize_id_token_def l)
  have q: "new_requests s (final_state (authorize_id_token now enhanced_message tag s)) =
             [AuthorizeRequest tag]"
    using authorize_id_token_online_requests [of ?s1 enhanced_message tag]
    by (simp add: t new_requests_def)
  have c: "authorization_cache (database_handler ?s1) tag = Some (e\<lparr>status := Expired\<rparr>)"
    by (simp add: insert_or_update_authorization_cache_entry_def)
  show ?thesis
  proof (cases "messageType enhanced_message = AuthorizeResponse")
    case False
    show ?thesis
      using False q c authorize_id_token_online_no_response [OF False, of tag ?s1]
      by (simp add: l t)
  next
    case True
    have "map_option fst (returned (authorize_id_token now enhanced_message tag s)) =
            Some (au_idTagInfo (msg call_result)) \<and>
          authorization_cache (database_handler
            (final_state (authorize_id_token now enhanced_message tag s))) tag =
            Some (if status (au_idTagInfo (msg call_result)) = AuthorizationStatus_Accepted
                  then au_idTagInfo (msg call_result) else e\<lparr>status := Expired\<rparr>)"
      if j: "em_message enhanced_message = json_AuthorizeResponse call_result" for call_result
      using authorize_id_token_online_response [OF True j, of tag ?s1] c
      by (simp add: t insert_or_update_authorization_cache_entry_def)
    then show ?thesis
      using True q by (simp add: l)
  qed
qed

text \<open>
  The expired entry of TAG02, looked up offline without the offline acceptance: Invalid,
  the entry Expired, the Authorize enqueued. Looked up with an Accepted response coming
  back: the IdTagInfo of the response, which is also what the store holds afterwards.
\<close>

theorem authorize_id_token_expired_entry_witness:
  "map_option fst
     (returned (authorize_id_token 100 resolved_offline ''TAG02'' (expired_cache_entry None))) =
     Some \<lparr>status = Invalid, expiryDate = None, parentIdTag = None\<rparr> \<and>
   authorization_cache (database_handler (final_state
     (authorize_id_token 100 resolved_offline ''TAG02'' (expired_cache_entry None)))) ''TAG02'' =
     Some \<lparr>status = Expired, expiryDate = Some 99, parentIdTag = None\<rparr> \<and>
   new_requests (expired_cache_entry None) (final_state
     (authorize_id_token 100 resolved_offline ''TAG02'' (expired_cache_entry None))) =
     [AuthorizeRequest ''TAG02''] \<and>
   map_option fst
     (returned (authorize_id_token 100
        \<lparr>em_message = json_AuthorizeResponse
           \<lparr>msg = AuthorizeResponse_msg
              \<lparr>status = AuthorizationStatus_Accepted, expiryDate = Some 500, parentIdTag = None\<rparr>,
            uniqueId = 0\<rparr>,
         em_uniqueId = 0, messageType = AuthorizeResponse, messageTypeId = CALLRESULT,
         offline = False\<rparr> ''TAG02'' (expired_cache_entry None))) =
     Some \<lparr>status = AuthorizationStatus_Accepted, expiryDate = Some 500, parentIdTag = None\<rparr> \<and>
   authorization_cache (database_handler (final_state
     (authorize_id_token 100
        \<lparr>em_message = json_AuthorizeResponse
           \<lparr>msg = AuthorizeResponse_msg
              \<lparr>status = AuthorizationStatus_Accepted, expiryDate = Some 500, parentIdTag = None\<rparr>,
            uniqueId = 0\<rparr>,
         em_uniqueId = 0, messageType = AuthorizeResponse, messageTypeId = CALLRESULT,
         offline = False\<rparr> ''TAG02'' (expired_cache_entry None)))) ''TAG02'' =
     Some \<lparr>status = AuthorizationStatus_Accepted, expiryDate = Some 500, parentIdTag = None\<rparr>"
proof -
  let ?s = "expired_cache_entry None"
  let ?e = "\<lparr>status = AuthorizationStatus_Accepted, expiryDate = Some 99, parentIdTag = None\<rparr>"
  let ?r = "\<lparr>em_message = json_AuthorizeResponse
              \<lparr>msg = AuthorizeResponse_msg
                 \<lparr>status = AuthorizationStatus_Accepted, expiryDate = Some 500, parentIdTag = None\<rparr>,
               uniqueId = 0\<rparr>,
            em_uniqueId = 0, messageType = AuthorizeResponse, messageTypeId = CALLRESULT,
            offline = False\<rparr>"
  have h1: "authorization_cache (database_handler ?s) ''TAG02'' = Some ?e"
    by (simp add: expired_cache_entry_def constructed_def empty_database_def)
  have h2: "status ?e = AuthorizationStatus_Accepted" and h3: "expiryDate ?e = Some 99"
    and h4: "(99::int) < 100"
    by simp_all
  have h5: "(LocalPreAuthorize (configuration ?s) \<and> is_connected (websocket ?s)) \<or>
            (LocalAuthorizeOffline (configuration ?s) \<and> \<not> is_connected (websocket ?s))"
    and h6: "AuthorizationCacheEnabled (configuration ?s)"
    and h7: "\<not> LocalAuthListEnabled (configuration ?s) \<or>
             local_authorization_list (database_handler ?s) ''TAG02'' = None"
    and a: "AllowOfflineTxForUnknownId (configuration ?s) = None"
    by (simp_all add: expired_cache_entry_def constructed_def default_configuration_def)
  have m: "messageType resolved_offline \<noteq> AuthorizeResponse"
    by (simp add: resolved_offline_def)
  show ?thesis
    using authorize_id_token_expired_entry [OF h1 h2 h3 h4 h5 h6 h7, of resolved_offline]
      authorize_id_token_expired_entry [OF h1 h2 h3 h4 h5 h6 h7, of ?r]
    by (simp add: m a)
qed

text \<open>
  C7. When the awaited Authorize resolves with offline set, \<^verbatim>\<open>authorize_id_token\<close>
  returns Accepted if AllowOfflineTxForUnknownId is set and true, and Invalid otherwise.
  The request is awaited when the local part has not settled it, and a future that
  resolves offline carries no AuthorizeResponse.
\<close>

theorem authorize_id_token_offline:
  assumes "fst (authorize_id_token_local now tag s) = None"
    and "offline enhanced_message"
    and "messageType enhanced_message \<noteq> AuthorizeResponse"
  shows "map_option fst (returned (authorize_id_token now enhanced_message tag s)) =
           Some \<lparr>status = (if AllowOfflineTxForUnknownId (configuration s) = Some True
                           then AuthorizationStatus_Accepted else Invalid),
                 expiryDate = None, parentIdTag = None\<rparr>"
proof -
  obtain s1 where l: "authorize_id_token_local now tag s = (None, s1)"
    using assms(1) by (cases "authorize_id_token_local now tag s") simp
  have c: "configuration s1 = configuration s"
    using authorize_id_token_local_configuration [of now tag s] l by simp
  show ?thesis
    using assms(2,3) l c
    by (cases "AllowOfflineTxForUnknownId (configuration s)")
       (auto simp add: authorize_id_token_def authorize_id_token_online_def createMessageId_def
        send_async_def push_def returned_def Let_def)
qed

text \<open>
  The expired entry of TAG02, looked up offline: Accepted with the setting true, Invalid
  with the setting false.
\<close>

theorem authorize_id_token_offline_witness:
  "map_option fst
     (returned (authorize_id_token 100 resolved_offline ''TAG02'' (expired_cache_entry (Some True)))) =
     Some \<lparr>status = AuthorizationStatus_Accepted, expiryDate = None, parentIdTag = None\<rparr> \<and>
   map_option fst
     (returned (authorize_id_token 100 resolved_offline ''TAG02'' (expired_cache_entry (Some False)))) =
     Some \<lparr>status = Invalid, expiryDate = None, parentIdTag = None\<rparr>"
proof -
  have h1: "fst (authorize_id_token_local 100 ''TAG02'' (expired_cache_entry allow)) = None"
    for allow
    by (simp add: authorize_id_token_local_def validate_against_cache_entries_def
        get_authorization_cache_entry_def expired_cache_entry_def constructed_def
        default_configuration_def empty_database_def Let_def)
  have h2: "offline resolved_offline" and h3: "messageType resolved_offline \<noteq> AuthorizeResponse"
    by (simp_all add: resolved_offline_def)
  have c: "AllowOfflineTxForUnknownId (configuration (expired_cache_entry allow)) = allow"
    for allow
    by (simp add: expired_cache_entry_def)
  show ?thesis
    using authorize_id_token_offline [OF h1 h2 h3, of "Some True"]
      authorize_id_token_offline [OF h1 h2 h3, of "Some False"]
    by (simp add: c)
qed

section \<open>Reconnect in the Booted state\<close>

text \<open>
  \<^verbatim>\<open>handleBootNotificationResponse\<close> is the only writer of the registration status and
  the only function that enters the Booted state; it enters it exactly for an Accepted
  response, with the charge point initialized. So the gate of \<^verbatim>\<open>send\<close> is open in the
  Booted state.
\<close>

lemma handleBootNotificationResponse_Booted:
  "(connection_state (handleBootNotificationResponse now call_result s) = Booted) =
     (bn_status (msg call_result) = RegistrationStatus_Accepted)"
  "initialized (handleBootNotificationResponse now call_result s)"
  "registration_status (handleBootNotificationResponse now call_result s) =
     bn_status (msg call_result)"
  by (cases "bn_status (msg call_result)";
      simp add: handleBootNotificationResponse_def Let_def)+

lemma status_notification_open:
  assumes "initialized s" and "registration_status s = RegistrationStatus_Accepted"
  shows "pushed (message_queue (status_notification now c e st s)) =
           pushed (message_queue s) @
             [\<lparr>msg = StatusNotificationRequest c e st,
               uniqueId = message_id_counter (message_queue s)\<rparr>]"
    and "initialized (status_notification now c e st s)"
    and "registration_status (status_notification now c e st s) = RegistrationStatus_Accepted"
    and "cp_status (status_notification now c e st s) = cp_status s"
  using assms
  by (simp_all add: status_notification_def createMessageId_def send_Call_def
      allowed_to_send_message_def push_def)

lemma connected_callback_notify_open:
  assumes "initialized s" and "registration_status s = RegistrationStatus_Accepted"
  shows "map msg (pushed (message_queue (connected_callback_notify now cs s))) =
           map msg (pushed (message_queue s)) @
             map (\<lambda>c. StatusNotificationRequest c NoError (get_state (cp_status s) c)) cs"
  using assms
proof (induction cs arbitrary: s)
  case Nil
  then show ?case by simp
next
  case (Cons c cs)
  let ?s1 = "status_notification now c NoError (get_state (cp_status s) c) s"
  have "map msg (pushed (message_queue (connected_callback_notify now cs ?s1))) =
          map msg (pushed (message_queue ?s1)) @
            map (\<lambda>c. StatusNotificationRequest c NoError (get_state (cp_status ?s1) c)) cs"
    using Cons.IH [of ?s1] status_notification_open(2,3) [OF Cons.prems] by simp
  then show ?case
    using status_notification_open(1,4) [OF Cons.prems] by simp
qed

lemma status_notification_websocket [simp]:
  "websocket (status_notification now c e st s) = websocket s"
  by (simp add: status_notification_def createMessageId_def send_Call_def push_def Let_def)

lemma connected_callback_notify_websocket [simp]:
  "websocket (connected_callback_notify now cs s) = websocket s"
  by (induction cs arbitrary: s) simp_all

text \<open>
  C8. After a reconnect in the Booted state the charge point emits exactly one
  StatusNotification for each connector from 0 to NumberOfConnectors, and no
  BootNotification: the requests enqueued by \<^verbatim>\<open>connected_callback\<close> are the
  StatusNotifications of the connectors 0 to NumberOfConnectors in order, each with the
  state of its connector, and nothing is handed to the WebSocket besides.
\<close>

theorem connected_callback_Booted:
  assumes "connection_state s = Booted"
    and "initialized s" and "registration_status s = RegistrationStatus_Accepted"
  shows "new_requests s (connected_callback now s) =
           map (\<lambda>c. StatusNotificationRequest c NoError (get_state (cp_status s) c))
             [0..NumberOfConnectors (configuration s)] \<and>
         (\<forall>c. length (filter (\<lambda>r. connectorId_of r = Some c)
                   (new_requests s (connected_callback now s))) =
               (if 0 \<le> c \<and> c \<le> NumberOfConnectors (configuration s) then 1 else 0)) \<and>
         list_all (\<lambda>r. get_type r = StatusNotification \<and> get_type r \<noteq> BootNotification)
           (new_requests s (connected_callback now s)) \<and>
         new_frames s (connected_callback now s) = []"
proof -
  let ?s1 = "s\<lparr>switch_security_profile_callback := False, central_system_fallback_ca := False\<rparr>"
  let ?f = "\<lambda>c. StatusNotificationRequest c NoError (get_state (cp_status s) c)"
  let ?cs = "[0..NumberOfConnectors (configuration s)]"
  have cb: "connected_callback now s = connected_callback_notify now ?cs ?s1"
    using assms(1) by (simp add: connected_callback_def)
  have "map msg (pushed (message_queue (connected_callback_notify now ?cs ?s1))) =
          map msg (pushed (message_queue ?s1)) @
            map (\<lambda>c. StatusNotificationRequest c NoError (get_state (cp_status ?s1) c)) ?cs"
    by (rule connected_callback_notify_open) (simp_all add: assms)
  then have m: "map msg (pushed (message_queue (connected_callback now s))) =
                  map msg (pushed (message_queue s)) @ map ?f ?cs"
    by (simp add: cb)
  have n: "new_requests s (connected_callback now s) = map ?f ?cs"
    unfolding new_requests_def drop_map [symmetric] m by simp
  have "\<And>c. filter (\<lambda>r. connectorId_of r = Some c) (map ?f ?cs) =
             map ?f (filter (\<lambda>x. x = c) ?cs)"
    by (simp add: filter_map comp_def connectorId_of_def)
  then have k: "\<And>c. length (filter (\<lambda>r. connectorId_of r = Some c) (map ?f ?cs)) =
                  (if 0 \<le> c \<and> c \<le> NumberOfConnectors (configuration s) then 1 else 0)"
    by (simp add: count_upto)
  have w: "new_frames s (connected_callback now s) = []"
    by (simp add: cb new_frames_def)
  show ?thesis
    unfolding n using k w n by (simp add: list_all_iff)
qed

text \<open>
  The charge point with two connectors that has just been accepted, on a reconnect: three
  StatusNotifications, for the connectors 0, 1 and 2.
\<close>

theorem connected_callback_Booted_witness:
  "connection_state booted_charge_point = Booted \<and>
   new_requests booted_charge_point (connected_callback 5 booted_charge_point) =
     [StatusNotificationRequest 0 NoError Available,
      StatusNotificationRequest 1 NoError Available,
      StatusNotificationRequest 2 NoError Available]"
proof -
  have h1: "connection_state booted_charge_point = Booted"
    and h2: "initialized booted_charge_point"
    and h3: "registration_status booted_charge_point = RegistrationStatus_Accepted"
    by (simp_all add: booted_charge_point_def handleBootNotificationResponse_Booted)
  have u: "[0..(2::int)] = [0, 1, 2]"
    by (simp add: upto_rec1)
  have c: "NumberOfConnectors (configuration booted_charge_point) = 2"
    by (simp add: booted_charge_point_def handleBootNotificationResponse_def Let_def
        constructed_def default_configuration_def)
  have g: "get_state (cp_status booted_charge_point) c = Available" for c
    by (simp add: booted_charge_point_def handleBootNotificationResponse_def Let_def run_def
        constructed_def empty_database_def)
  show ?thesis
    using connected_callback_Booted [OF h1 h2 h3, of 5] h1 by (simp add: c g u)
qed

end
